theory Spec2Isabelle
  imports Complex_Main "HOL-Library.Finite_Map" "HOL-Library.Char_ord" "HOL-Library.List_Lexorder"
begin

section \<open>Go values used by the security policy appender\<close>

subsection \<open>float64\<close>

text \<open>
  Rates and the derived percentage are Go \<^verbatim>\<open>float64\<close> values. Go never panics on a
  floating-point division by zero: it yields an infinity or NaN, as IEEE 754 says. The type
  below keeps these special values apart from the finite ones, and the operations follow the
  IEEE rules for them. Finite arithmetic is exact: rounding, overflow to an infinity and the
  sign of zero are abstracted (a zero divisor counts as \<^verbatim>\<open>+0\<close>, which is the only zero
  that \<^verbatim>\<open>mtls + other\<close> can be in \<^verbatim>\<open>applySecurityPolicy\<close>, since
  \<^verbatim>\<open>other\<close> starts at \<^verbatim>\<open>+0\<close>).
\<close>

datatype float64 = Fin real | PInf | NInf | NaN

instantiation float64 :: "{zero, one, plus, times, inverse}"
begin

definition zero_float64 :: float64 where
  "zero_float64 = Fin 0"

definition one_float64 :: float64 where
  "one_float64 = Fin 1"

fun plus_float64 :: "float64 \<Rightarrow> float64 \<Rightarrow> float64" where
  "plus_float64 (Fin a) (Fin b) = Fin (a + b)"
| "plus_float64 NaN y = NaN"
| "plus_float64 x NaN = NaN"
| "plus_float64 PInf NInf = NaN"
| "plus_float64 NInf PInf = NaN"
| "plus_float64 PInf y = PInf"
| "plus_float64 x PInf = PInf"
| "plus_float64 NInf y = NInf"
| "plus_float64 x NInf = NInf"

fun times_float64 :: "float64 \<Rightarrow> float64 \<Rightarrow> float64" where
  "times_float64 (Fin a) (Fin b) = Fin (a * b)"
| "times_float64 NaN y = NaN"
| "times_float64 x NaN = NaN"
| "times_float64 PInf (Fin b) = (if b = 0 then NaN else if 0 < b then PInf else NInf)"
| "times_float64 NInf (Fin b) = (if b = 0 then NaN else if 0 < b then NInf else PInf)"
| "times_float64 (Fin a) PInf = (if a = 0 then NaN else if 0 < a then PInf else NInf)"
| "times_float64 (Fin a) NInf = (if a = 0 then NaN else if 0 < a then NInf else PInf)"
| "times_float64 PInf PInf = PInf"
| "times_float64 NInf NInf = PInf"
| "times_float64 PInf NInf = NInf"
| "times_float64 NInf PInf = NInf"

fun divide_float64 :: "float64 \<Rightarrow> float64 \<Rightarrow> float64" where
  "divide_float64 (Fin a) (Fin b) =
     (if b = 0 then (if a = 0 then NaN else if 0 < a then PInf else NInf) else Fin (a / b))"
| "divide_float64 NaN y = NaN"
| "divide_float64 x NaN = NaN"
| "divide_float64 (Fin a) PInf = Fin 0"
| "divide_float64 (Fin a) NInf = Fin 0"
| "divide_float64 PInf (Fin b) = (if 0 \<le> b then PInf else NInf)"
| "divide_float64 NInf (Fin b) = (if 0 \<le> b then NInf else PInf)"
| "divide_float64 PInf PInf = NaN"
| "divide_float64 PInf NInf = NaN"
| "divide_float64 NInf PInf = NaN"
| "divide_float64 NInf NInf = NaN"

definition inverse_float64 :: "float64 \<Rightarrow> float64" where
  "inverse_float64 x = divide (Fin 1) x"

instance ..

end

instance float64 :: comm_monoid_add
proof (standard, goal_cases)
  case (1 x y z)
  show ?case
    by (cases x; cases y; cases z; simp)
next
  case (2 x y)
  show ?case
    by (cases x; cases y; simp)
next
  case (3 x)
  show ?case
    by (cases x; simp add: zero_float64_def)
qed

instance float64 :: numeral ..

subsection \<open>Strings and formatting\<close>

text \<open>
  \<^verbatim>\<open>fmt.Sprintf\<close> with \<^verbatim>\<open>%v\<close> prints an \<^verbatim>\<open>int\<close> in decimal, with a
  leading minus sign when it is negative; \<^verbatim>\<open>%s\<close> and \<^verbatim>\<open>%v\<close> insert a string
  as it is. \<^verbatim>\<open>strings.Join\<close> puts the separator between the elements.
\<close>

fun showNat :: "nat \<Rightarrow> string" where
  "showNat n =
     (if n < 10 then [''0123456789'' ! n]
      else showNat (n div 10) @ [''0123456789'' ! (n mod 10)])"

declare showNat.simps [simp del]

definition showInt :: "int \<Rightarrow> string" where
  "showInt i = (if i < 0 then ''-'' @ showNat (nat (- i)) else showNat (nat i))"

fun join :: "string list \<Rightarrow> string \<Rightarrow> string" where
  "join [] sep = []"
| "join [x] sep = x"
| "join (x # y # ys) sep = x @ sep @ join (y # ys) sep"

section \<open>The graph data model\<close>

text \<open>
  The types of the graph package, as \<^verbatim>\<open>security_policy.go\<close> uses them. An edge holds pointers to its source and
  destination node, of which the appender reads the \<^verbatim>\<open>ID\<close> only: the model stores the
  two IDs. \<^verbatim>\<open>Metadata\<close> is a \<^verbatim>\<open>map[string]interface{}\<close> owned by the edge (never
  nil, never shared between edges); its values are the \<^verbatim>\<open>float64\<close> this appender
  writes, or anything else, kept as an opaque string. A \<^verbatim>\<open>TrafficMap\<close> is a
  \<^verbatim>\<open>map[string]*Node\<close>.
\<close>

datatype mdvalue = FloatVal float64 | OtherVal string

record Edge =
  Source :: string
  Dest :: string
  Metadata :: "(string, mdvalue) fmap"

record Node =
  ID :: string
  Edges :: "Edge list"

type_synonym TrafficMap = "(string, Node) fmap"

text \<open>
  Modelled from the spec: \<^verbatim>\<open>graph.NamespaceInfo\<close>, the per-namespace window (a
  \<^verbatim>\<open>time.Duration\<close>, an integer number of nanoseconds) and the flag that the namespace
  belongs to the mesh infrastructure.
\<close>

record NamespaceInfo =
  Name :: string
  Duration :: int
  IsIstio :: bool

text \<open>A Prometheus sample: its label set and its value (the timestamp is never read).\<close>

record Sample =
  Metric :: "(string, string) fmap"
  Value :: float64

type_synonym Vector = "Sample list"

type_synonym PolicyRates = "(string, float64) fmap"

type_synonym SecurityPolicyMap = "(string, PolicyRates) fmap"

record SecurityPolicyAppender =
  GraphType :: string
  InjectServiceNodes :: bool
  Namespaces :: "(string, NamespaceInfo) fmap"
  QueryTime :: int

definition SecurityPolicyAppenderName :: string where
  "SecurityPolicyAppenderName = ''securityPolicy''"

definition policyMTLS :: string where
  "policyMTLS = ''mutual_tls''"

subsection \<open>Collaborators outside this file\<close>

text \<open>
  What \<^verbatim>\<open>security_policy.go\<close> calls but does not define is a parameter of the model:
  \<^item> \<^verbatim>\<open>graph.Id\<close>, from the six telemetry attributes and the graph type to the node ID
    and the node type;
  \<^item> the constants \<^verbatim>\<open>graph.NodeTypeService\<close> and \<^verbatim>\<open>graph.IsMTLS\<close>;
  \<^item> \<^verbatim>\<open>getIstioNamespaces\<close>, the names of the infrastructure namespaces;
  \<^item> \<^verbatim>\<open>int(d.Seconds())\<close> for a duration of \<^verbatim>\<open>d\<close> nanoseconds (the conversion
    goes through \<^verbatim>\<open>float64\<close>);
  \<^item> \<^verbatim>\<open>prometheus.NewClient\<close>, which gives a client or an error;
  \<^item> the metrics backend: the vector it answers to a query string at an instant (unix
    seconds), for a client and the queries issued so far.
\<close>

text \<open>
  Functions of the five attributes of a source node (namespace, service, workload, app,
  version) and of the six attributes of a destination node (service namespace, service,
  workload namespace, workload, app, version).
\<close>

type_synonym 'r ofSource = "string \<Rightarrow> string \<Rightarrow> string \<Rightarrow> string \<Rightarrow> string \<Rightarrow> 'r"

type_synonym 'r ofDest = "string \<Rightarrow> string \<Rightarrow> string \<Rightarrow> string \<Rightarrow> string \<Rightarrow> string \<Rightarrow> 'r"

record 'c externals =
  graph_Id :: "(string \<Rightarrow> string \<times> string) ofDest"
  NodeTypeService :: string
  IsMTLS :: string
  getIstioNamespaces :: "(string, NamespaceInfo) fmap \<Rightarrow> string list"
  durationSeconds :: "int \<Rightarrow> int"
  NewClient :: "string + 'c"
  respond :: "'c \<Rightarrow> (string \<times> int) list \<Rightarrow> string \<Rightarrow> int \<Rightarrow> Vector"

section \<open>The security policy appender\<close>

text \<open>\<^verbatim>\<open>func (a SecurityPolicyAppender) Name() string\<close>\<close>

definition Name_appender :: "SecurityPolicyAppender \<Rightarrow> string" where
  "Name_appender a = SecurityPolicyAppenderName"

subsection \<open>addSecurityPolicy\<close>

text \<open>
  The map is mutated in place in Go; the model returns the new map. A missing key gets a
  fresh \<^verbatim>\<open>PolicyRates\<close>, and \<^verbatim>\<open>policyRates[csp] = val\<close> then writes through to
  the map stored under the key.
\<close>

definition addSecurityPolicy ::
  "'c externals \<Rightarrow> SecurityPolicyAppender \<Rightarrow> SecurityPolicyMap \<Rightarrow> string \<Rightarrow> float64
     \<Rightarrow> SecurityPolicyMap ofDest ofSource" where
  "addSecurityPolicy env a securityPolicyMap csp val sourceNs sourceSvc sourceWl sourceApp
       sourceVer destSvcNs destSvc destWlNs destWl destApp destVer =
     (let sourceId = fst (graph_Id env sourceNs sourceSvc sourceNs sourceWl sourceApp sourceVer
                            (GraphType a));
          destId = fst (graph_Id env destSvcNs destSvc destWlNs destWl destApp destVer
                          (GraphType a));
          key = sourceId @ '' '' @ destId;
          policyRates = (case fmlookup securityPolicyMap key of
                           None \<Rightarrow> fmempty
                         | Some pr \<Rightarrow> pr)
      in fmupd key (fmupd csp val policyRates) securityPolicyMap)"

subsection \<open>populateSecurityPolicyMap\<close>

text \<open>
  Go's two-valued map index \<^verbatim>\<open>v, ok := m[k]\<close>: the zero value and \<^verbatim>\<open>false\<close> when the
  key is missing.
\<close>

definition lookupLabel :: "(string, string) fmap \<Rightarrow> string \<Rightarrow> string \<times> bool" where
  "lookupLabel m k = (case fmlookup m k of None \<Rightarrow> ('''', False) | Some v \<Rightarrow> (v, True))"

text \<open>The body of the loop over the vector; \<^verbatim>\<open>continue\<close> returns the map unchanged.\<close>

definition populateSample ::
  "'c externals \<Rightarrow> SecurityPolicyAppender \<Rightarrow> SecurityPolicyMap \<Rightarrow> Sample \<Rightarrow> SecurityPolicyMap" where
  "populateSample env a securityPolicyMap s =
     (let m = Metric s;
          (sourceWlNs, sourceWlNsOk) = lookupLabel m ''source_workload_namespace'';
          (sourceWl, sourceWlOk) = lookupLabel m ''source_workload'';
          (sourceApp, sourceAppOk) = lookupLabel m ''source_app'';
          (sourceVer, sourceVerOk) = lookupLabel m ''source_version'';
          (destSvcNs, destSvcNsOk) = lookupLabel m ''destination_service_namespace'';
          (destSvc, destSvcOk) = lookupLabel m ''destination_service_name'';
          (destWlNs, destWlNsOk) = lookupLabel m ''destination_workload_namespace'';
          (destWl, destWlOk) = lookupLabel m ''destination_workload'';
          (destApp, destAppOk) = lookupLabel m ''destination_app'';
          (destVer, destVerOk) = lookupLabel m ''destination_version'';
          (csp, cspOk) = lookupLabel m ''connection_security_policy''
      in if \<not> sourceWlNsOk \<or> \<not> sourceWlOk \<or> \<not> sourceAppOk \<or> \<not> sourceVerOk \<or> \<not> destSvcNsOk
            \<or> \<not> destSvcOk \<or> \<not> destWlNsOk \<or> \<not> destWlOk \<or> \<not> destAppOk \<or> \<not> destVerOk \<or> \<not> cspOk
         then securityPolicyMap
         else
           (let val = Value s in
            if InjectServiceNodes a then
              (let destNodeType = snd (graph_Id env destSvcNs destSvc destWlNs destWl destApp
                                         destVer (GraphType a))
               in if destSvcOk \<and> destNodeType \<noteq> NodeTypeService env then
                    addSecurityPolicy env a
                      (addSecurityPolicy env a securityPolicyMap csp val sourceWlNs '''' sourceWl
                         sourceApp sourceVer destSvcNs destSvc '''' '''' '''' '''')
                      csp val destSvcNs destSvc '''' '''' '''' destSvcNs destSvc destWlNs destWl
                      destApp destVer
                  else
                    addSecurityPolicy env a securityPolicyMap csp val sourceWlNs '''' sourceWl
                      sourceApp sourceVer destSvcNs destSvc destWlNs destWl destApp destVer)
            else
              addSecurityPolicy env a securityPolicyMap csp val sourceWlNs '''' sourceWl
                sourceApp sourceVer destSvcNs destSvc destWlNs destWl destApp destVer))"

fun populateSecurityPolicyMap ::
  "'c externals \<Rightarrow> SecurityPolicyAppender \<Rightarrow> SecurityPolicyMap \<Rightarrow> Vector \<Rightarrow> SecurityPolicyMap" where
  "populateSecurityPolicyMap env a securityPolicyMap [] = securityPolicyMap"
| "populateSecurityPolicyMap env a securityPolicyMap (s # vector) =
     populateSecurityPolicyMap env a (populateSample env a securityPolicyMap s) vector"

subsection \<open>applySecurityPolicy\<close>

text \<open>
  The loop over \<^verbatim>\<open>policyRates\<close> visits every entry once, in an order Go leaves open:
  the entry of \<^verbatim>\<open>mutual_tls\<close> is assigned to \<^verbatim>\<open>mtls\<close>, every other rate is added
  to \<^verbatim>\<open>other\<close>. \<open>ratesLoop\<close> is that loop on the entries in a given order, and
  \<open>mtlsPercentage\<close> runs it on the entries sorted by key. The choice of the order does not
  matter: the keys of a map are distinct and the addition of the model is associative and
  commutative, so every enumeration of the entries gives the same result (lemma
  \<open>ratesLoop_any_order\<close> below).
\<close>

definition ratesBody :: "string \<times> float64 \<Rightarrow> float64 \<times> float64 \<Rightarrow> float64 \<times> float64" where
  "ratesBody entry acc =
     (case (entry, acc) of ((policy, rate), (mtls, other)) \<Rightarrow>
        if policy = policyMTLS then (rate, other) else (mtls, other + rate))"

definition ratesLoop :: "(string \<times> float64) list \<Rightarrow> float64 \<times> float64" where
  "ratesLoop entries = fold ratesBody entries (0, 0)"

definition mtlsPercentage :: "PolicyRates \<Rightarrow> float64" where
  "mtlsPercentage policyRates =
     (let (mtls, other) = ratesLoop (sorted_list_of_fmap policyRates)
      in mtls / (mtls + other) * 100)"

definition edgeKey :: "Edge \<Rightarrow> string" where
  "edgeKey e = Source e @ '' '' @ Dest e"

definition applyEdge :: "'c externals \<Rightarrow> SecurityPolicyMap \<Rightarrow> Edge \<Rightarrow> Edge" where
  "applyEdge env securityPolicyMap e =
     (case fmlookup securityPolicyMap (edgeKey e) of
        Some policyRates \<Rightarrow>
          e\<lparr>Metadata := fmupd (IsMTLS env) (FloatVal (mtlsPercentage policyRates)) (Metadata e)\<rparr>
      | None \<Rightarrow> e)"

definition applySecurityPolicy :: "'c externals \<Rightarrow> TrafficMap \<Rightarrow> SecurityPolicyMap \<Rightarrow> TrafficMap" where
  "applySecurityPolicy env trafficMap securityPolicyMap =
     fmmap (\<lambda>s. s\<lparr>Edges := map (applyEdge env securityPolicyMap) (Edges s)\<rparr>) trafficMap"

subsection \<open>appendGraph and AppendGraph\<close>

text \<open>
  The state the appender works on: the traffic map, the shared client handle
  \<^verbatim>\<open>globalInfo.PromClient\<close> (\<open>None\<close> is nil), and the queries issued to the metrics
  backend so far, each with its evaluation instant.
\<close>

record 'c state =
  trafficMap :: TrafficMap
  PromClient :: "'c option"
  queryLog :: "(string \<times> int) list"

text \<open>
  Modelled from the spec: \<^verbatim>\<open>promQuery\<close>, defined in another file of the package. The
  metrics backend is a query interface accepting an expression string and an evaluation
  instant, returning a set of labelled samples; every call is one query issued, recorded in
  the log.
\<close>

definition promQuery ::
  "'c externals \<Rightarrow> string \<Rightarrow> int \<Rightarrow> 'c \<Rightarrow> (string \<times> int) list \<Rightarrow> Vector \<times> (string \<times> int) list" where
  "promQuery env query queryTime client issued =
     (respond env client issued query queryTime, issued @ [(query, queryTime)])"

definition groupBy :: string where
  "groupBy = ''source_workload_namespace,source_workload,source_app,source_version,destination_service_namespace,destination_service_name,destination_workload_namespace,destination_workload,destination_app,destination_version,connection_security_policy''"

definition outboundQuery :: "string \<Rightarrow> int \<Rightarrow> string" where
  \<open>outboundQuery namespace seconds =
     ''sum(rate('' @ ''istio_requests_total''
       @ ''{reporter="destination",source_workload_namespace!="'' @ namespace
       @ ''",destination_service_namespace="'' @ namespace
       @ ''"}['' @ showInt seconds @ ''s]) > 0) by ('' @ groupBy @ '')''\<close>

definition destinationWorkloadNamespaceQuery :: "string list \<Rightarrow> string" where
  \<open>destinationWorkloadNamespaceQuery excludedIstioNamespaces =
     (if length excludedIstioNamespaces > 0
      then '',destination_service_namespace!~"'' @ join excludedIstioNamespaces ''|'' @ ''"''
      else [])\<close>

definition inboundQuery :: "string \<Rightarrow> string list \<Rightarrow> int \<Rightarrow> string" where
  \<open>inboundQuery namespace excludedIstioNamespaces seconds =
     ''sum(rate('' @ ''istio_requests_total''
       @ ''{reporter="destination",source_workload_namespace="'' @ namespace
       @ ''"'' @ destinationWorkloadNamespaceQuery excludedIstioNamespaces
       @ ''}['' @ showInt seconds @ ''s]) > 0) by ('' @ groupBy @ '')''\<close>

text \<open>
  \<^verbatim>\<open>a.Namespaces[namespace].Duration\<close> is the zero duration when the namespace is not
  in the map.
\<close>

definition namespaceSeconds :: "'c externals \<Rightarrow> SecurityPolicyAppender \<Rightarrow> string \<Rightarrow> int" where
  "namespaceSeconds env a namespace =
     durationSeconds env
       (case fmlookup (Namespaces a) namespace of None \<Rightarrow> 0 | Some info \<Rightarrow> Duration info)"

definition appendGraph ::
  "'c externals \<Rightarrow> SecurityPolicyAppender \<Rightarrow> 'c state \<Rightarrow> string \<Rightarrow> 'c \<Rightarrow> 'c state" where
  "appendGraph env a st namespace client =
     (let seconds = namespaceSeconds env a namespace;
          query = outboundQuery namespace seconds;
          (outVector, log1) = promQuery env query (QueryTime a) client (queryLog st);
          excludedIstioNamespaces = getIstioNamespaces env (Namespaces a);
          query = inboundQuery namespace excludedIstioNamespaces seconds;
          (inVector, log2) = promQuery env query (QueryTime a) client log1;
          securityPolicyMap = fmempty;
          securityPolicyMap = populateSecurityPolicyMap env a securityPolicyMap outVector;
          securityPolicyMap = populateSecurityPolicyMap env a securityPolicyMap inVector
      in st\<lparr>trafficMap := applySecurityPolicy env (trafficMap st) securityPolicyMap,
            queryLog := log2\<rparr>)"

text \<open>
  \<^verbatim>\<open>graph.CheckError\<close> panics on an error: the run is aborted, which is the \<open>Inl\<close> result.
\<close>

definition AppendGraph ::
  "'c externals \<Rightarrow> SecurityPolicyAppender \<Rightarrow> 'c state \<Rightarrow> string \<Rightarrow> string + 'c state" where
  "AppendGraph env a st namespace =
     (if fcard (fmdom (trafficMap st)) = 0 then Inr st
      else
        (case PromClient st of
           None \<Rightarrow>
             (case NewClient env of
                Inl err \<Rightarrow> Inl err
              | Inr client \<Rightarrow>
                  Inr (appendGraph env a (st\<lparr>PromClient := Some client\<rparr>) namespace client))
         | Some client \<Rightarrow> Inr (appendGraph env a st namespace client)))"

section \<open>Notions used to state the properties\<close>

text \<open>
  The eleven labels a series must carry, in the order \<^verbatim>\<open>populateSecurityPolicyMap\<close>
  reads them.
\<close>

definition requiredLabels :: "string list" where
  "requiredLabels =
     [''source_workload_namespace'', ''source_workload'', ''source_app'', ''source_version'',
      ''destination_service_namespace'', ''destination_service_name'',
      ''destination_workload_namespace'', ''destination_workload'', ''destination_app'',
      ''destination_version'', ''connection_security_policy'']"

text \<open>
  One observation accumulated into the policy aggregator, in the words of the spec: the rate
  of a policy label for a pair of node IDs, stored under the key
  \<^verbatim>\<open>"<source-ID> <dest-ID>"\<close>.
\<close>

definition observe ::
  "SecurityPolicyMap \<Rightarrow> string \<Rightarrow> string \<Rightarrow> string \<Rightarrow> float64 \<Rightarrow> SecurityPolicyMap" where
  "observe m sourceId destId policy rate =
     fmupd (sourceId @ '' '' @ destId)
       (fmupd policy rate
          (case fmlookup m (sourceId @ '' '' @ destId) of None \<Rightarrow> fmempty | Some pr \<Rightarrow> pr))
       m"

text \<open>The rate the aggregator holds for a key and a policy label, if any.\<close>

definition rateOf :: "SecurityPolicyMap \<Rightarrow> string \<Rightarrow> string \<Rightarrow> float64 option" where
  "rateOf m key policy =
     (case fmlookup m key of None \<Rightarrow> None | Some policyRates \<Rightarrow> fmlookup policyRates policy)"

text \<open>
  The two results of the loop over a \<^verbatim>\<open>PolicyRates\<close> map in closed form: the rate of
  \<^verbatim>\<open>mutual_tls\<close>, or 0, and the sum of the other rates.
\<close>

definition mtlsRate :: "PolicyRates \<Rightarrow> float64" where
  "mtlsRate policyRates = (case fmlookup policyRates policyMTLS of None \<Rightarrow> 0 | Some rate \<Rightarrow> rate)"

definition otherRate :: "PolicyRates \<Rightarrow> float64" where
  "otherRate policyRates =
     (\<Sum>policy \<in> fmdom' policyRates - {policyMTLS}. the (fmlookup policyRates policy))"

text \<open>
  The aggregator \<open>m\<close> overwritten by the aggregator \<open>d\<close>: every rate of \<open>d\<close> replaces the
  rate that \<open>m\<close> has for the same key and label, and the other rates of \<open>m\<close> stay.
\<close>

definition overwrite :: "SecurityPolicyMap \<Rightarrow> SecurityPolicyMap \<Rightarrow> SecurityPolicyMap" where
  "overwrite m d =
     m ++\<^sub>f fmmap_keys
              (\<lambda>key policyRates.
                 (case fmlookup m key of None \<Rightarrow> fmempty | Some pr \<Rightarrow> pr) ++\<^sub>f policyRates)
              d"

subsection \<open>A sample instance of the collaborators\<close>

text \<open>
  Concrete collaborators to run the model on: a node ID made of the namespace (the workload
  namespace when there is one) and of the workload or service name, a backend that answers
  every query with the empty vector, and a client constructor that succeeds.
\<close>

definition sampleId :: "(string \<Rightarrow> string \<times> string) ofDest" where
  "sampleId serviceNamespace service workloadNamespace workload app version graphType =
     (let namespace = (if workloadNamespace = [] then serviceNamespace else workloadNamespace)
      in if workload = [] \<and> app = [] then (namespace @ ''_'' @ service, ''service'')
         else (namespace @ ''_'' @ workload, ''workload''))"

definition sampleExternals :: "unit externals" where
  "sampleExternals =
     \<lparr>graph_Id = sampleId, NodeTypeService = ''service'', IsMTLS = ''isMTLS'',
      getIstioNamespaces = (\<lambda>namespaces. [''istio-system'']),
      durationSeconds = (\<lambda>d. d div 1000000000),
      NewClient = Inr (),
      respond = (\<lambda>client issued query queryTime. [])\<rparr>"

definition sampleAppender :: "bool \<Rightarrow> SecurityPolicyAppender" where
  "sampleAppender inject =
     \<lparr>GraphType = ''workload'', InjectServiceNodes = inject,
      Namespaces = fmupd ''bookinfo'' \<lparr>Name = ''bookinfo'', Duration = 60000000000,
                                       IsIstio = False\<rparr> fmempty,
      QueryTime = 1500000000\<rparr>"

text \<open>
  A series from workload \<^verbatim>\<open>productpage-v1\<close> to workload \<^verbatim>\<open>reviews-v1\<close> of service
  \<^verbatim>\<open>reviews\<close>, with a given policy label and rate.
\<close>

definition sampleMetric :: "string \<Rightarrow> (string, string) fmap" where
  "sampleMetric csp =
     fmap_of_list
       [(''source_workload_namespace'', ''bookinfo''), (''source_workload'', ''productpage-v1''),
        (''source_app'', ''productpage''), (''source_version'', ''v1''),
        (''destination_service_namespace'', ''bookinfo''),
        (''destination_service_name'', ''reviews''),
        (''destination_workload_namespace'', ''bookinfo''),
        (''destination_workload'', ''reviews-v1''), (''destination_app'', ''reviews''),
        (''destination_version'', ''v1''), (''connection_security_policy'', csp)]"

definition sampleSeries :: "string \<Rightarrow> float64 \<Rightarrow> Sample" where
  "sampleSeries csp rate = \<lparr>Metric = sampleMetric csp, Value = rate\<rparr>"

text \<open>A traffic map with the single edge from \<^verbatim>\<open>productpage-v1\<close> to \<^verbatim>\<open>reviews-v1\<close>.\<close>

definition sampleEdge :: Edge where
  "sampleEdge =
     \<lparr>Source = ''bookinfo_productpage-v1'', Dest = ''bookinfo_reviews-v1'',
      Metadata = fmupd ''protocol'' (OtherVal ''http'') fmempty\<rparr>"

definition sampleTrafficMap :: TrafficMap where
  "sampleTrafficMap =
     fmupd ''bookinfo_productpage-v1'' \<lparr>ID = ''bookinfo_productpage-v1'', Edges = [sampleEdge]\<rparr>
       (fmupd ''bookinfo_reviews-v1'' \<lparr>ID = ''bookinfo_reviews-v1'', Edges = []\<rparr> fmempty)"

text \<open>
  The same collaborators with a backend whose answers overlap: the first query issued gets
  the series with rate 8, every later query gets it with rate 3.
\<close>

definition overlappingExternals :: "unit externals" where
  "overlappingExternals =
     sampleExternals\<lparr>respond := \<lambda>client issued query queryTime.
        if issued = [] then [sampleSeries ''mutual_tls'' (Fin 8)]
        else [sampleSeries ''mutual_tls'' (Fin 3)]\<rparr>"

section \<open>Properties\<close>

subsection \<open>Arithmetic and the loop over the policy rates\<close>

lemma ratesBody_pair:
  "ratesBody (p, r) (m, oth) = (if p = policyMTLS then (r, oth) else (m, oth + r))"
  by (simp add: ratesBody_def)

lemma fold_ratesBody:
  "distinct (map fst es) \<Longrightarrow>
   fold ratesBody es (m, oth) =
     ((case map_of es policyMTLS of None \<Rightarrow> m | Some r \<Rightarrow> r),
      oth + sum_list (map snd (filter (\<lambda>e. fst e \<noteq> policyMTLS) es)))"
proof (induction es arbitrary: m oth)
  case Nil
  show ?case by simp
next
  case (Cons e es)
  obtain p r where e: "e = (p, r)" by (cases e)
  from Cons.prems have d: "distinct (map fst es)" and notin: "p \<notin> fst ` set es"
    by (simp_all add: e)
  show ?case
  proof (cases "p = policyMTLS")
    case True
    with notin have "map_of es policyMTLS = None"
      by (simp add: map_of_eq_None_iff)
    with True show ?thesis
      by (simp add: e ratesBody_pair Cons.IH [OF d])
  next
    case False
    then show ?thesis
      by (simp add: e ratesBody_pair Cons.IH [OF d] add.assoc)
  qed
qed

lemma sum_list_other_rates:
  "distinct (map fst es) \<Longrightarrow>
   sum_list (map snd (filter (\<lambda>e. fst e \<noteq> k) es)) =
     (\<Sum>p \<in> fst ` set es - {k}. the (map_of es p))"
proof (induction es)
  case Nil
  show ?case by simp
next
  case (Cons e es)
  obtain p r where e: "e = (p, r)" by (cases e)
  from Cons.prems have d: "distinct (map fst es)" and notin: "p \<notin> fst ` set es"
    by (simp_all add: e)
  have same: "(\<Sum>q \<in> fst ` set es - {k}. the (map_of (e # es) q)) =
              (\<Sum>q \<in> fst ` set es - {k}. the (map_of es q))"
    using notin by (intro sum.cong) (auto simp: e)
  show ?case
  proof (cases "p = k")
    case True
    then have "fst ` set (e # es) - {k} = fst ` set es - {k}"
      by (auto simp: e)
    with True same show ?thesis
      by (simp add: e Cons.IH [OF d])
  next
    case False
    then have "fst ` set (e # es) - {k} = insert p (fst ` set es - {k})"
      by (auto simp: e)
    moreover have "p \<notin> fst ` set es - {k}"
      using notin by simp
    ultimately show ?thesis
      using False same by (simp add: e Cons.IH [OF d])
  qed
qed

lemma ratesLoop_any_order:
  assumes "distinct (map fst es)" and "map_of es = fmlookup policyRates"
  shows "ratesLoop es = (mtlsRate policyRates, otherRate policyRates)"
proof -
  have "fmdom' policyRates = fst ` set es"
    using assms(2) by (metis dom_map_of_conv_image_fst fmdom'.rep_eq)
  then show ?thesis
    using assms
    by (simp add: ratesLoop_def fold_ratesBody sum_list_other_rates mtlsRate_def otherRate_def)
qed

lemma distinct_sorted_list_of_fmap: "distinct (map fst (sorted_list_of_fmap m))"
  by (simp add: sorted_list_of_fmap_def comp_def sorted_list_of_fset.rep_eq)


lemma numeral_float64: "(numeral n :: float64) = Fin (numeral n)"
proof (induction n)
  case One
  show ?case by (simp add: one_float64_def)
next
  case (Bit0 n)
  have "(numeral (num.Bit0 n) :: float64) = numeral n + numeral n"
    by (rule numeral_Bit0)
  also have "\<dots> = Fin (numeral n + numeral n)"
    by (simp only: Bit0.IH plus_float64.simps)
  also have "\<dots> = Fin (numeral (num.Bit0 n))"
    by (simp only: numeral_Bit0)
  finally show ?case .
next
  case (Bit1 n)
  have "(numeral (num.Bit1 n) :: float64) = numeral n + numeral n + 1"
    by (rule numeral_Bit1)
  also have "\<dots> = Fin (numeral n + numeral n + 1)"
    by (simp only: Bit1.IH plus_float64.simps one_float64_def)
  also have "\<dots> = Fin (numeral (num.Bit1 n))"
    by (simp only: numeral_Bit1)
  finally show ?case .
qed

lemma mtlsPercentage_closed_form:
  "mtlsPercentage policyRates =
     (let mtls = mtlsRate policyRates; other = otherRate policyRates
      in mtls / (mtls + other) * 100)"
  by (simp add: mtlsPercentage_def Let_def
      ratesLoop_any_order [OF distinct_sorted_list_of_fmap map_of_sorted_list])

lemma applySecurityPolicy_lookup:
  "fmlookup (applySecurityPolicy env tm securityPolicyMap) k =
     map_option (\<lambda>s. s\<lparr>Edges := map (applyEdge env securityPolicyMap) (Edges s)\<rparr>)
       (fmlookup tm k)"
  by (simp add: applySecurityPolicy_def)

lemma applyEdge_found:
  "fmlookup securityPolicyMap (Source e @ '' '' @ Dest e) = Some policyRates \<Longrightarrow>
   applyEdge env securityPolicyMap e =
     e\<lparr>Metadata := fmupd (IsMTLS env) (FloatVal (mtlsPercentage policyRates)) (Metadata e)\<rparr>"
  by (simp add: applyEdge_def edgeKey_def)

lemma applyEdge_not_found:
  "fmlookup securityPolicyMap (Source e @ '' '' @ Dest e) = None \<Longrightarrow>
   applyEdge env securityPolicyMap e = e"
  by (simp add: applyEdge_def edgeKey_def)

lemma applyEdge_frame:
  "Source (applyEdge env securityPolicyMap e) = Source e"
  "Dest (applyEdge env securityPolicyMap e) = Dest e"
  "mk \<noteq> IsMTLS env \<Longrightarrow>
   fmlookup (Metadata (applyEdge env securityPolicyMap e)) mk = fmlookup (Metadata e) mk"
  by (simp_all add: applyEdge_def split: option.split)






subsection \<open>What applySecurityPolicy leaves alone\<close>

text \<open>
  C4. Annotation never creates or removes nodes or edges of the traffic map: after
  \<^verbatim>\<open>applySecurityPolicy\<close> the node IDs and the (source-ID, dest-ID) pairs of the edges
  are the same, an edge whose key is not in the aggregator is left as it was, and on any
  edge only the metadata key \<^verbatim>\<open>graph.IsMTLS\<close> can change.
\<close>

theorem applySecurityPolicy_frame:
  "fmdom (applySecurityPolicy env tm spm) = fmdom tm
   \<and> (\<forall>k s. fmlookup tm k = Some s \<longrightarrow>
         (\<exists>s'. fmlookup (applySecurityPolicy env tm spm) k = Some s'
            \<and> ID s' = ID s
            \<and> map (\<lambda>e. (Source e, Dest e)) (Edges s') = map (\<lambda>e. (Source e, Dest e)) (Edges s)
            \<and> (\<forall>i < length (Edges s).
                  (fmlookup spm (Source (Edges s ! i) @ '' '' @ Dest (Edges s ! i)) = None
                     \<longrightarrow> Edges s' ! i = Edges s ! i)
                  \<and> (\<forall>mk. mk \<noteq> IsMTLS env \<longrightarrow>
                        fmlookup (Metadata (Edges s' ! i)) mk
                          = fmlookup (Metadata (Edges s ! i)) mk))))"
proof (intro conjI allI impI)
  show "fmdom (applySecurityPolicy env tm spm) = fmdom tm"
    by (simp add: applySecurityPolicy_def)
next
  fix k s
  assume look: "fmlookup tm k = Some s"
  let ?s' = "s\<lparr>Edges := map (applyEdge env spm) (Edges s)\<rparr>"
  have "fmlookup (applySecurityPolicy env tm spm) k = Some ?s'"
    by (simp add: applySecurityPolicy_lookup look)
  moreover have "ID ?s' = ID s"
    by simp
  moreover have "map (\<lambda>e. (Source e, Dest e)) (Edges ?s') = map (\<lambda>e. (Source e, Dest e)) (Edges s)"
    by (simp add: applyEdge_frame)
  moreover have "\<forall>i < length (Edges s).
       (fmlookup spm (Source (Edges s ! i) @ '' '' @ Dest (Edges s ! i)) = None
          \<longrightarrow> Edges ?s' ! i = Edges s ! i)
       \<and> (\<forall>mk. mk \<noteq> IsMTLS env \<longrightarrow>
             fmlookup (Metadata (Edges ?s' ! i)) mk = fmlookup (Metadata (Edges s ! i)) mk)"
    by (simp add: applyEdge_frame applyEdge_not_found)
  ultimately show "\<exists>s'. fmlookup (applySecurityPolicy env tm spm) k = Some s'
            \<and> ID s' = ID s
            \<and> map (\<lambda>e. (Source e, Dest e)) (Edges s') = map (\<lambda>e. (Source e, Dest e)) (Edges s)
            \<and> (\<forall>i < length (Edges s).
                  (fmlookup spm (Source (Edges s ! i) @ '' '' @ Dest (Edges s ! i)) = None
                     \<longrightarrow> Edges s' ! i = Edges s ! i)
                  \<and> (\<forall>mk. mk \<noteq> IsMTLS env \<longrightarrow>
                        fmlookup (Metadata (Edges s' ! i)) mk
                          = fmlookup (Metadata (Edges s ! i)) mk))"
    by blast
qed

theorem applySecurityPolicy_frame_witness:
  "fmlookup sampleTrafficMap ''bookinfo_productpage-v1''
     = Some \<lparr>ID = ''bookinfo_productpage-v1'', Edges = [sampleEdge]\<rparr>
   \<and> fmlookup (fmupd ''bookinfo_reviews-v1 bookinfo_ratings-v1''
                  (fmupd ''mutual_tls'' (Fin 3) fmempty) fmempty)
        (Source sampleEdge @ '' '' @ Dest sampleEdge) = None
   \<and> fmdom (applySecurityPolicy sampleExternals sampleTrafficMap
               (fmupd ''bookinfo_reviews-v1 bookinfo_ratings-v1''
                  (fmupd ''mutual_tls'' (Fin 3) fmempty) fmempty))
       = {|''bookinfo_productpage-v1'', ''bookinfo_reviews-v1''|}
   \<and> (\<exists>s'. fmlookup
              (applySecurityPolicy sampleExternals sampleTrafficMap
                 (fmupd ''bookinfo_reviews-v1 bookinfo_ratings-v1''
                    (fmupd ''mutual_tls'' (Fin 3) fmempty) fmempty))
              ''bookinfo_productpage-v1'' = Some s'
            \<and> ID s' = ''bookinfo_productpage-v1''
            \<and> map (\<lambda>e. (Source e, Dest e)) (Edges s')
                = [(''bookinfo_productpage-v1'', ''bookinfo_reviews-v1'')]
            \<and> Edges s' ! 0 = sampleEdge)"
proof -
  have h1: "fmlookup sampleTrafficMap ''bookinfo_productpage-v1''
              = Some \<lparr>ID = ''bookinfo_productpage-v1'', Edges = [sampleEdge]\<rparr>"
    by (simp add: sampleTrafficMap_def)
  have h2: "fmlookup (fmupd ''bookinfo_reviews-v1 bookinfo_ratings-v1''
                        (fmupd ''mutual_tls'' (Fin 3) fmempty) fmempty)
              (Source sampleEdge @ '' '' @ Dest sampleEdge) = None"
    by (simp add: sampleEdge_def)
  have h3: "fmdom sampleTrafficMap = {|''bookinfo_productpage-v1'', ''bookinfo_reviews-v1''|}"
    by (simp add: sampleTrafficMap_def)
  note frame = applySecurityPolicy_frame [of sampleExternals sampleTrafficMap
      "fmupd ''bookinfo_reviews-v1 bookinfo_ratings-v1''
         (fmupd ''mutual_tls'' (Fin 3) fmempty) fmempty"]
  note node = frame [THEN conjunct2, rule_format, OF h1]
  then obtain s' where s':
    "fmlookup
       (applySecurityPolicy sampleExternals sampleTrafficMap
          (fmupd ''bookinfo_reviews-v1 bookinfo_ratings-v1''
             (fmupd ''mutual_tls'' (Fin 3) fmempty) fmempty))
       ''bookinfo_productpage-v1'' = Some s'"
    "ID s' = ''bookinfo_productpage-v1''"
    "map (\<lambda>e. (Source e, Dest e)) (Edges s') = [(Source sampleEdge, Dest sampleEdge)]"
    "Edges s' ! 0 = sampleEdge"
    using h2 by fastforce
  have ends: "(Source sampleEdge, Dest sampleEdge)
                = (''bookinfo_productpage-v1'', ''bookinfo_reviews-v1'')"
    by (simp add: sampleEdge_def)
  show ?thesis
    using h1 h2 h3 frame [THEN conjunct1] s' ends by simp
qed

subsection \<open>populateSecurityPolicyMap and the policy aggregator\<close>

lemma addSecurityPolicy_observe:
  "addSecurityPolicy env a m csp val sourceNs sourceSvc sourceWl sourceApp sourceVer
     destSvcNs destSvc destWlNs destWl destApp destVer =
   observe m
     (fst (graph_Id env sourceNs sourceSvc sourceNs sourceWl sourceApp sourceVer (GraphType a)))
     (fst (graph_Id env destSvcNs destSvc destWlNs destWl destApp destVer (GraphType a)))
     csp val"
  by (simp add: addSecurityPolicy_def observe_def Let_def)

lemma lookupLabel_Some: "fmlookup m k = Some v \<Longrightarrow> lookupLabel m k = (v, True)"
  by (simp add: lookupLabel_def)

lemma snd_lookupLabel: "snd (lookupLabel m k) \<longleftrightarrow> fmlookup m k \<noteq> None"
  by (simp add: lookupLabel_def split: option.split)

lemma populateSample_complete:
  assumes "fmlookup (Metric s) ''source_workload_namespace'' = Some sourceWlNs"
    and "fmlookup (Metric s) ''source_workload'' = Some sourceWl"
    and "fmlookup (Metric s) ''source_app'' = Some sourceApp"
    and "fmlookup (Metric s) ''source_version'' = Some sourceVer"
    and "fmlookup (Metric s) ''destination_service_namespace'' = Some destSvcNs"
    and "fmlookup (Metric s) ''destination_service_name'' = Some destSvc"
    and "fmlookup (Metric s) ''destination_workload_namespace'' = Some destWlNs"
    and "fmlookup (Metric s) ''destination_workload'' = Some destWl"
    and "fmlookup (Metric s) ''destination_app'' = Some destApp"
    and "fmlookup (Metric s) ''destination_version'' = Some destVer"
    and "fmlookup (Metric s) ''connection_security_policy'' = Some csp"
  shows "populateSample env a m s =
    (if InjectServiceNodes a
        \<and> snd (graph_Id env destSvcNs destSvc destWlNs destWl destApp destVer (GraphType a))
            \<noteq> NodeTypeService env
     then observe
            (observe m
               (fst (graph_Id env sourceWlNs [] sourceWlNs sourceWl sourceApp sourceVer
                       (GraphType a)))
               (fst (graph_Id env destSvcNs destSvc [] [] [] [] (GraphType a)))
               csp (Value s))
            (fst (graph_Id env destSvcNs destSvc destSvcNs [] [] [] (GraphType a)))
            (fst (graph_Id env destSvcNs destSvc destWlNs destWl destApp destVer (GraphType a)))
            csp (Value s)
     else observe m
            (fst (graph_Id env sourceWlNs [] sourceWlNs sourceWl sourceApp sourceVer
                    (GraphType a)))
            (fst (graph_Id env destSvcNs destSvc destWlNs destWl destApp destVer (GraphType a)))
            csp (Value s))"
  by (simp add: populateSample_def Let_def assms [THEN lookupLabel_Some]
      addSecurityPolicy_observe)

lemma populateSample_incomplete:
  assumes "\<exists>label \<in> set requiredLabels. fmlookup (Metric s) label = None"
  shows "populateSample env a m s = m"
proof -
  from assms obtain label where
    "label \<in> set requiredLabels" and "\<not> snd (lookupLabel (Metric s) label)"
    by (auto simp: snd_lookupLabel)
  then show ?thesis
    unfolding populateSample_def Let_def case_prod_beta requiredLabels_def
    by auto
qed

lemma labels_cases:
  obtains (incomplete) "\<exists>label \<in> set requiredLabels. fmlookup (Metric s) label = None"
  | (complete) sourceWlNs sourceWl sourceApp sourceVer destSvcNs destSvc destWlNs destWl
      destApp destVer csp
    where "fmlookup (Metric s) ''source_workload_namespace'' = Some sourceWlNs"
    and "fmlookup (Metric s) ''source_workload'' = Some sourceWl"
    and "fmlookup (Metric s) ''source_app'' = Some sourceApp"
    and "fmlookup (Metric s) ''source_version'' = Some sourceVer"
    and "fmlookup (Metric s) ''destination_service_namespace'' = Some destSvcNs"
    and "fmlookup (Metric s) ''destination_service_name'' = Some destSvc"
    and "fmlookup (Metric s) ''destination_workload_namespace'' = Some destWlNs"
    and "fmlookup (Metric s) ''destination_workload'' = Some destWl"
    and "fmlookup (Metric s) ''destination_app'' = Some destApp"
    and "fmlookup (Metric s) ''destination_version'' = Some destVer"
    and "fmlookup (Metric s) ''connection_security_policy'' = Some csp"
proof (cases "\<exists>label \<in> set requiredLabels. fmlookup (Metric s) label = None")
  case True
  then show ?thesis by (rule incomplete)
next
  case False
  then have "\<forall>label \<in> set requiredLabels. \<exists>v. fmlookup (Metric s) label = Some v"
    by auto
  then show ?thesis
    unfolding requiredLabels_def by (auto intro: complete)
qed

lemma populate_append:
  "populateSecurityPolicyMap env a m (xs @ ys) =
     populateSecurityPolicyMap env a (populateSecurityPolicyMap env a m xs) ys"
  by (induction xs arbitrary: m) simp_all


lemma fmlookup_overwrite:
  "fmlookup (overwrite m d) key =
     (case fmlookup d key of
        None \<Rightarrow> fmlookup m key
      | Some policyRates \<Rightarrow>
          Some ((case fmlookup m key of None \<Rightarrow> fmempty | Some pr \<Rightarrow> pr) ++\<^sub>f policyRates))"
  by (simp add: overwrite_def fmlookup_dom_iff split: option.split)

lemma overwrite_empty [simp]: "overwrite m fmempty = m" "overwrite fmempty d = d"
  by (rule fmap_ext; simp add: fmlookup_overwrite split: option.split)+

lemma overwrite_assoc: "overwrite (overwrite m d) e = overwrite m (overwrite d e)"
  by (rule fmap_ext) (simp add: fmlookup_overwrite split: option.split)

lemma fmadd_twice: "m ++\<^sub>f n ++\<^sub>f n = m ++\<^sub>f n"
  by (rule fmap_ext) simp

lemma overwrite_idem: "overwrite (overwrite m d) d = overwrite m d"
  by (rule fmap_ext) (simp add: fmlookup_overwrite fmadd_twice split: option.split)

lemma fmupd_as_add: "fmupd k v m = m ++\<^sub>f fmupd k v fmempty"
  by (rule fmap_ext) simp

lemma observe_overwrite:
  "observe m sourceId destId policy rate =
     overwrite m (observe fmempty sourceId destId policy rate)"
  by (rule fmap_ext)
    (simp add: observe_def fmlookup_overwrite fmupd_as_add [symmetric] split: option.split)

lemma observe_twice_overwrite:
  "observe (observe m src1 dst1 p1 r1) src2 dst2 p2 r2 =
     overwrite m (observe (observe fmempty src1 dst1 p1 r1) src2 dst2 p2 r2)"
proof -
  have "observe (observe m src1 dst1 p1 r1) src2 dst2 p2 r2 =
          overwrite (overwrite m (observe fmempty src1 dst1 p1 r1))
            (observe fmempty src2 dst2 p2 r2)"
    using observe_overwrite [of "observe m src1 dst1 p1 r1" src2 dst2 p2 r2]
      observe_overwrite [of m src1 dst1 p1 r1]
    by simp
  also have "\<dots> = overwrite m (overwrite (observe fmempty src1 dst1 p1 r1)
                                  (observe fmempty src2 dst2 p2 r2))"
    by (rule overwrite_assoc)
  also have "\<dots> = overwrite m (observe (observe fmempty src1 dst1 p1 r1) src2 dst2 p2 r2)"
    using observe_overwrite [of "observe fmempty src1 dst1 p1 r1" src2 dst2 p2 r2]
    by simp
  finally show ?thesis .
qed

lemma populateSample_overwrite:
  "populateSample env a m s = overwrite m (populateSample env a fmempty s)"
proof (cases s rule: labels_cases)
  case incomplete
  then show ?thesis
    by (simp add: populateSample_incomplete)
next
  case complete
  note eq = populateSample_complete [OF complete]
  show ?thesis
    unfolding eq [of env a m] eq [of env a fmempty]
    using observe_twice_overwrite [of m] observe_overwrite [of m]
    by (simp split: if_split)
qed

lemma populate_overwrite:
  "populateSecurityPolicyMap env a m vector =
     overwrite m (populateSecurityPolicyMap env a fmempty vector)"
proof (induction vector arbitrary: m)
  case Nil
  show ?case by simp
next
  case (Cons s vector)
  have "populateSecurityPolicyMap env a m (s # vector) =
          overwrite (populateSample env a m s) (populateSecurityPolicyMap env a fmempty vector)"
    by (simp add: Cons.IH [of "populateSample env a m s"])
  also have "\<dots> = overwrite m (overwrite (populateSample env a fmempty s)
                                  (populateSecurityPolicyMap env a fmempty vector))"
    by (simp add: populateSample_overwrite [of env a m] overwrite_assoc)
  also have "\<dots> = overwrite m (populateSecurityPolicyMap env a fmempty (s # vector))"
    by (simp add: Cons.IH [of "populateSample env a fmempty s"])
  finally show ?case .
qed

lemma rateOf_overwrite:
  "rateOf (overwrite m d) key policy =
     (case rateOf d key policy of Some rate \<Rightarrow> Some rate | None \<Rightarrow> rateOf m key policy)"
  by (auto simp: rateOf_def fmlookup_overwrite fmlookup_dom_iff split: option.split)

lemma sampleMetric_labels:
  "fmlookup (Metric (sampleSeries csp rate)) ''source_workload_namespace'' = Some ''bookinfo''"
  "fmlookup (Metric (sampleSeries csp rate)) ''source_workload'' = Some ''productpage-v1''"
  "fmlookup (Metric (sampleSeries csp rate)) ''source_app'' = Some ''productpage''"
  "fmlookup (Metric (sampleSeries csp rate)) ''source_version'' = Some ''v1''"
  "fmlookup (Metric (sampleSeries csp rate)) ''destination_service_namespace'' = Some ''bookinfo''"
  "fmlookup (Metric (sampleSeries csp rate)) ''destination_service_name'' = Some ''reviews''"
  "fmlookup (Metric (sampleSeries csp rate)) ''destination_workload_namespace'' = Some ''bookinfo''"
  "fmlookup (Metric (sampleSeries csp rate)) ''destination_workload'' = Some ''reviews-v1''"
  "fmlookup (Metric (sampleSeries csp rate)) ''destination_app'' = Some ''reviews''"
  "fmlookup (Metric (sampleSeries csp rate)) ''destination_version'' = Some ''v1''"
  "fmlookup (Metric (sampleSeries csp rate)) ''connection_security_policy'' = Some csp"
  by (simp_all add: sampleSeries_def sampleMetric_def fmlookup_of_list)

lemma populateSample_sampleSeries:
  "populateSample sampleExternals (sampleAppender inject) m (sampleSeries csp rate) =
     (if inject
      then observe (observe m ''bookinfo_productpage-v1'' ''bookinfo_reviews'' csp rate)
             ''bookinfo_reviews'' ''bookinfo_reviews-v1'' csp rate
      else observe m ''bookinfo_productpage-v1'' ''bookinfo_reviews-v1'' csp rate)"
  by (subst populateSample_complete [OF sampleMetric_labels])
    (simp add: sampleExternals_def sampleAppender_def sampleId_def sampleSeries_def)

text \<open>
  C2. For a series with all required labels, \<^verbatim>\<open>populateSecurityPolicyMap\<close> makes two
  observations when service nodes are injected and the destination is not of the service
  node type (the label of the destination service name is there, as all required labels
  are): caller to service node, and service node to destination, each with the rate of the
  series under its policy label. Otherwise it makes the single observation caller to
  destination. The service node is \<^verbatim>\<open>graph.Id\<close> of the destination service namespace
  and name with the other attributes empty (as a source, with the service namespace as its
  workload namespace).
\<close>

theorem populateSecurityPolicyMap_observations:
  assumes "fmlookup (Metric s) ''source_workload_namespace'' = Some sourceWlNs"
    and "fmlookup (Metric s) ''source_workload'' = Some sourceWl"
    and "fmlookup (Metric s) ''source_app'' = Some sourceApp"
    and "fmlookup (Metric s) ''source_version'' = Some sourceVer"
    and "fmlookup (Metric s) ''destination_service_namespace'' = Some destSvcNs"
    and "fmlookup (Metric s) ''destination_service_name'' = Some destSvc"
    and "fmlookup (Metric s) ''destination_workload_namespace'' = Some destWlNs"
    and "fmlookup (Metric s) ''destination_workload'' = Some destWl"
    and "fmlookup (Metric s) ''destination_app'' = Some destApp"
    and "fmlookup (Metric s) ''destination_version'' = Some destVer"
    and "fmlookup (Metric s) ''connection_security_policy'' = Some csp"
  shows "populateSecurityPolicyMap env a m (s # vector) =
    (let caller = fst (graph_Id env sourceWlNs [] sourceWlNs sourceWl sourceApp sourceVer
                         (GraphType a));
         dest = graph_Id env destSvcNs destSvc destWlNs destWl destApp destVer (GraphType a);
         serviceAsDest = fst (graph_Id env destSvcNs destSvc [] [] [] [] (GraphType a));
         serviceAsSource = fst (graph_Id env destSvcNs destSvc destSvcNs [] [] [] (GraphType a))
     in if InjectServiceNodes a \<and> snd dest \<noteq> NodeTypeService env
        then populateSecurityPolicyMap env a
               (observe (observe m caller serviceAsDest csp (Value s))
                  serviceAsSource (fst dest) csp (Value s))
               vector
        else populateSecurityPolicyMap env a (observe m caller (fst dest) csp (Value s)) vector)"
  by (simp add: populateSample_complete [OF assms] Let_def)

theorem populateSecurityPolicyMap_observations_witness:
  "populateSecurityPolicyMap sampleExternals (sampleAppender True) fmempty
     [sampleSeries ''mutual_tls'' (Fin 8)]
     = fmupd ''bookinfo_reviews bookinfo_reviews-v1'' (fmupd ''mutual_tls'' (Fin 8) fmempty)
         (fmupd ''bookinfo_productpage-v1 bookinfo_reviews''
            (fmupd ''mutual_tls'' (Fin 8) fmempty) fmempty)
   \<and> populateSecurityPolicyMap sampleExternals (sampleAppender False) fmempty
       [sampleSeries ''mutual_tls'' (Fin 8)]
     = fmupd ''bookinfo_productpage-v1 bookinfo_reviews-v1''
         (fmupd ''mutual_tls'' (Fin 8) fmempty) fmempty"
proof -
  note labels = sampleMetric_labels [of "''mutual_tls''" "Fin 8"]
  show ?thesis
    using populateSecurityPolicyMap_observations [OF labels,
        where env = sampleExternals and a = "sampleAppender True" and m = fmempty
          and vector = "[]"]
      populateSecurityPolicyMap_observations [OF labels,
        where env = sampleExternals and a = "sampleAppender False" and m = fmempty
          and vector = "[]"]
    by (simp add: sampleExternals_def sampleAppender_def sampleId_def sampleSeries_def
        observe_def)
qed

text \<open>
  C5. A series that lacks one of the eleven required labels is skipped by
  \<^verbatim>\<open>populateSecurityPolicyMap\<close>: the aggregator, and with it the annotation of every
  edge, is the one obtained without that series, and the series before and after it are
  processed as usual.
\<close>

theorem populateSecurityPolicyMap_skips_incomplete:
  assumes "\<exists>label \<in> set requiredLabels. fmlookup (Metric s) label = None"
  shows "populateSecurityPolicyMap env a m (before @ s # after) =
           populateSecurityPolicyMap env a m (before @ after)
         \<and> applySecurityPolicy env tm (populateSecurityPolicyMap env a m (before @ s # after)) =
             applySecurityPolicy env tm (populateSecurityPolicyMap env a m (before @ after))"
  by (simp add: populate_append populateSample_incomplete [OF assms])

theorem populateSecurityPolicyMap_skips_incomplete_witness:
  "(\<exists>label \<in> set requiredLabels.
      fmlookup (Metric \<lparr>Metric = fmdrop ''connection_security_policy'' (sampleMetric ''none''),
                        Value = Fin 7\<rparr>) label = None)
   \<and> populateSecurityPolicyMap sampleExternals (sampleAppender False) fmempty
       ([sampleSeries ''mutual_tls'' (Fin 8)]
        @ \<lparr>Metric = fmdrop ''connection_security_policy'' (sampleMetric ''none''),
            Value = Fin 7\<rparr>
        # [sampleSeries ''none'' (Fin 2)])
     = fmupd ''bookinfo_productpage-v1 bookinfo_reviews-v1''
         (fmupd ''none'' (Fin 2) (fmupd ''mutual_tls'' (Fin 8) fmempty)) fmempty"
proof -
  have h: "\<exists>label \<in> set requiredLabels.
      fmlookup (Metric \<lparr>Metric = fmdrop ''connection_security_policy'' (sampleMetric ''none''),
                        Value = Fin 7\<rparr>) label = None"
    by (simp add: requiredLabels_def)
  show ?thesis
    using h populateSecurityPolicyMap_skips_incomplete [OF h,
        where env = sampleExternals and a = "sampleAppender False" and m = fmempty
          and before = "[sampleSeries ''mutual_tls'' (Fin 8)]"
          and after = "[sampleSeries ''none'' (Fin 2)]"]
    by (simp add: populateSample_sampleSeries observe_def)
qed

lemma appendGraph_result:
  "appendGraph env a st namespace client =
     st\<lparr>trafficMap :=
          applySecurityPolicy env (trafficMap st)
            (populateSecurityPolicyMap env a
               (populateSecurityPolicyMap env a fmempty
                  (respond env client (queryLog st)
                     (outboundQuery namespace (namespaceSeconds env a namespace)) (QueryTime a)))
               (respond env client
                  (queryLog st
                     @ [(outboundQuery namespace (namespaceSeconds env a namespace), QueryTime a)])
                  (inboundQuery namespace (getIstioNamespaces env (Namespaces a))
                     (namespaceSeconds env a namespace))
                  (QueryTime a))),
        queryLog :=
          queryLog st
            @ [(outboundQuery namespace (namespaceSeconds env a namespace), QueryTime a),
               (inboundQuery namespace (getIstioNamespaces env (Namespaces a))
                  (namespaceSeconds env a namespace),
                QueryTime a)]\<rparr>"
  by (simp add: appendGraph_def promQuery_def Let_def)

text \<open>
  C3. In the policy aggregator a later observation for the same key and policy label
  replaces the earlier value, it is not added to it. \<^verbatim>\<open>appendGraph\<close> populates the map
  with the vector of the outbound query first and with the vector of the inbound query
  second, so for a key and label that the inbound vector gives a rate, that rate is the one
  finally stored, whatever the outbound vector gave.
\<close>

theorem inbound_observation_wins:
  "addSecurityPolicy env a
     (addSecurityPolicy env a m csp earlier sourceNs sourceSvc sourceWl sourceApp sourceVer
        destSvcNs destSvc destWlNs destWl destApp destVer)
     csp later sourceNs sourceSvc sourceWl sourceApp sourceVer
     destSvcNs destSvc destWlNs destWl destApp destVer
   = addSecurityPolicy env a m csp later sourceNs sourceSvc sourceWl sourceApp sourceVer
       destSvcNs destSvc destWlNs destWl destApp destVer
   \<and> (let seconds = namespaceSeconds env a namespace;
           outVector = respond env client (queryLog st) (outboundQuery namespace seconds)
                         (QueryTime a);
           inVector = respond env client
                        (queryLog st @ [(outboundQuery namespace seconds, QueryTime a)])
                        (inboundQuery namespace (getIstioNamespaces env (Namespaces a)) seconds)
                        (QueryTime a);
           securityPolicyMap =
             populateSecurityPolicyMap env a (populateSecurityPolicyMap env a fmempty outVector)
               inVector
       in trafficMap (appendGraph env a st namespace client)
            = applySecurityPolicy env (trafficMap st) securityPolicyMap
          \<and> rateOf securityPolicyMap key policy =
              (case rateOf (populateSecurityPolicyMap env a fmempty inVector) key policy of
                 Some rate \<Rightarrow> Some rate
               | None \<Rightarrow> rateOf (populateSecurityPolicyMap env a fmempty outVector) key policy))"
proof (intro conjI)
  show "addSecurityPolicy env a
     (addSecurityPolicy env a m csp earlier sourceNs sourceSvc sourceWl sourceApp sourceVer
        destSvcNs destSvc destWlNs destWl destApp destVer)
     csp later sourceNs sourceSvc sourceWl sourceApp sourceVer
     destSvcNs destSvc destWlNs destWl destApp destVer
   = addSecurityPolicy env a m csp later sourceNs sourceSvc sourceWl sourceApp sourceVer
       destSvcNs destSvc destWlNs destWl destApp destVer"
    by (simp add: addSecurityPolicy_def Let_def)
  show "let seconds = namespaceSeconds env a namespace;
           outVector = respond env client (queryLog st) (outboundQuery namespace seconds)
                         (QueryTime a);
           inVector = respond env client
                        (queryLog st @ [(outboundQuery namespace seconds, QueryTime a)])
                        (inboundQuery namespace (getIstioNamespaces env (Namespaces a)) seconds)
                        (QueryTime a);
           securityPolicyMap =
             populateSecurityPolicyMap env a (populateSecurityPolicyMap env a fmempty outVector)
               inVector
       in trafficMap (appendGraph env a st namespace client)
            = applySecurityPolicy env (trafficMap st) securityPolicyMap
          \<and> rateOf securityPolicyMap key policy =
              (case rateOf (populateSecurityPolicyMap env a fmempty inVector) key policy of
                 Some rate \<Rightarrow> Some rate
               | None \<Rightarrow> rateOf (populateSecurityPolicyMap env a fmempty outVector) key policy)"
    unfolding Let_def
    by (subst (2) populate_overwrite) (simp add: appendGraph_result rateOf_overwrite)
qed

theorem inbound_observation_wins_witness:
  "addSecurityPolicy overlappingExternals (sampleAppender False)
     (addSecurityPolicy overlappingExternals (sampleAppender False) fmempty
        ''mutual_tls'' (Fin 8) ''bookinfo'' [] ''productpage-v1'' ''productpage'' ''v1''
        ''bookinfo'' ''reviews'' ''bookinfo'' ''reviews-v1'' ''reviews'' ''v1'')
     ''mutual_tls'' (Fin 3) ''bookinfo'' [] ''productpage-v1'' ''productpage'' ''v1''
     ''bookinfo'' ''reviews'' ''bookinfo'' ''reviews-v1'' ''reviews'' ''v1''
     = fmupd ''bookinfo_productpage-v1 bookinfo_reviews-v1''
         (fmupd ''mutual_tls'' (Fin 3) fmempty) fmempty
   \<and> trafficMap
       (appendGraph overlappingExternals (sampleAppender False)
          \<lparr>trafficMap = sampleTrafficMap, PromClient = Some (), queryLog = []\<rparr>
          ''bookinfo'' ())
     = applySecurityPolicy overlappingExternals sampleTrafficMap
         (fmupd ''bookinfo_productpage-v1 bookinfo_reviews-v1''
            (fmupd ''mutual_tls'' (Fin 3) fmempty) fmempty)
   \<and> rateOf
       (fmupd ''bookinfo_productpage-v1 bookinfo_reviews-v1''
          (fmupd ''mutual_tls'' (Fin 3) fmempty) fmempty)
       ''bookinfo_productpage-v1 bookinfo_reviews-v1'' ''mutual_tls'' = Some (Fin 3)"
proof -
  have pop: "populateSample overlappingExternals (sampleAppender False) m
               (sampleSeries ''mutual_tls'' rate)
     = observe m ''bookinfo_productpage-v1'' ''bookinfo_reviews-v1'' ''mutual_tls'' rate"
    for m rate
    by (subst populateSample_complete [OF sampleMetric_labels])
      (simp add: overlappingExternals_def sampleExternals_def sampleAppender_def sampleId_def
        sampleSeries_def)
  have resp: "respond overlappingExternals client issued query queryTime =
      (if issued = [] then [sampleSeries ''mutual_tls'' (Fin 8)]
       else [sampleSeries ''mutual_tls'' (Fin 3)])" for client issued query queryTime
    by (simp add: overlappingExternals_def)
  note inst = inbound_observation_wins [where env = overlappingExternals
      and a = "sampleAppender False"
      and st = "\<lparr>trafficMap = sampleTrafficMap, PromClient = Some (), queryLog = []\<rparr>"
      and namespace = "''bookinfo''" and client = "()"
      and key = "''bookinfo_productpage-v1 bookinfo_reviews-v1''"
      and policy = "''mutual_tls''" and m = fmempty and csp = "''mutual_tls''"
      and earlier = "Fin 8" and later = "Fin 3" and sourceNs = "''bookinfo''"
      and sourceSvc = "[]" and sourceWl = "''productpage-v1''" and sourceApp = "''productpage''"
      and sourceVer = "''v1''" and destSvcNs = "''bookinfo''" and destSvc = "''reviews''"
      and destWlNs = "''bookinfo''" and destWl = "''reviews-v1''" and destApp = "''reviews''"
      and destVer = "''v1''"]
  have first: "addSecurityPolicy overlappingExternals (sampleAppender False) fmempty
        ''mutual_tls'' (Fin 3) ''bookinfo'' [] ''productpage-v1'' ''productpage'' ''v1''
        ''bookinfo'' ''reviews'' ''bookinfo'' ''reviews-v1'' ''reviews'' ''v1''
      = fmupd ''bookinfo_productpage-v1 bookinfo_reviews-v1''
         (fmupd ''mutual_tls'' (Fin 3) fmempty) fmempty"
    by (simp add: addSecurityPolicy_def overlappingExternals_def sampleExternals_def
        sampleAppender_def sampleId_def)
  show ?thesis
    using inst [THEN conjunct1] inst [THEN conjunct2] first
    by (simp add: Let_def resp pop observe_def rateOf_def)
qed

text \<open>
  C10. Populating the aggregator with a vector a second time changes nothing: every series
  that is kept writes the same values to the same keys and labels again.
\<close>

theorem populateSecurityPolicyMap_idempotent:
  "populateSecurityPolicyMap env a (populateSecurityPolicyMap env a m vector) vector =
     populateSecurityPolicyMap env a m vector"
proof -
  have "populateSecurityPolicyMap env a (populateSecurityPolicyMap env a m vector) vector =
          overwrite (overwrite m (populateSecurityPolicyMap env a fmempty vector))
            (populateSecurityPolicyMap env a fmempty vector)"
    using populate_overwrite [of env a "populateSecurityPolicyMap env a m vector" vector]
      populate_overwrite [of env a m vector]
    by simp
  also have "\<dots> = overwrite m (populateSecurityPolicyMap env a fmempty vector)"
    by (rule overwrite_idem)
  also have "\<dots> = populateSecurityPolicyMap env a m vector"
    by (rule populate_overwrite [symmetric])
  finally show ?thesis .
qed

theorem populateSecurityPolicyMap_idempotent_witness:
  "populateSecurityPolicyMap sampleExternals (sampleAppender True)
     (populateSecurityPolicyMap sampleExternals (sampleAppender True) fmempty
        [sampleSeries ''mutual_tls'' (Fin 8), sampleSeries ''mutual_tls'' (Fin 3),
         sampleSeries ''none'' (Fin 2)])
     [sampleSeries ''mutual_tls'' (Fin 8), sampleSeries ''mutual_tls'' (Fin 3),
      sampleSeries ''none'' (Fin 2)]
   = populateSecurityPolicyMap sampleExternals (sampleAppender True) fmempty
       [sampleSeries ''mutual_tls'' (Fin 8), sampleSeries ''mutual_tls'' (Fin 3),
        sampleSeries ''none'' (Fin 2)]
   \<and> rateOf
       (populateSecurityPolicyMap sampleExternals (sampleAppender True) fmempty
          [sampleSeries ''mutual_tls'' (Fin 8), sampleSeries ''mutual_tls'' (Fin 3),
           sampleSeries ''none'' (Fin 2)])
       ''bookinfo_reviews bookinfo_reviews-v1'' ''mutual_tls'' = Some (Fin 3)"
proof
  show "populateSecurityPolicyMap sampleExternals (sampleAppender True)
     (populateSecurityPolicyMap sampleExternals (sampleAppender True) fmempty
        [sampleSeries ''mutual_tls'' (Fin 8), sampleSeries ''mutual_tls'' (Fin 3),
         sampleSeries ''none'' (Fin 2)])
     [sampleSeries ''mutual_tls'' (Fin 8), sampleSeries ''mutual_tls'' (Fin 3),
      sampleSeries ''none'' (Fin 2)]
   = populateSecurityPolicyMap sampleExternals (sampleAppender True) fmempty
       [sampleSeries ''mutual_tls'' (Fin 8), sampleSeries ''mutual_tls'' (Fin 3),
        sampleSeries ''none'' (Fin 2)]"
    by (rule populateSecurityPolicyMap_idempotent)
  show "rateOf
       (populateSecurityPolicyMap sampleExternals (sampleAppender True) fmempty
          [sampleSeries ''mutual_tls'' (Fin 8), sampleSeries ''mutual_tls'' (Fin 3),
           sampleSeries ''none'' (Fin 2)])
       ''bookinfo_reviews bookinfo_reviews-v1'' ''mutual_tls'' = Some (Fin 3)"
    by (simp add: populateSample_sampleSeries observe_def rateOf_def)
qed

subsection \<open>The unguarded division\<close>

lemma sum_zero_rates:
  assumes "\<forall>policy rate. fmlookup policyRates policy = Some rate \<longrightarrow> rate = Fin 0"
  shows "mtlsRate policyRates = Fin 0" and "otherRate policyRates = Fin 0"
proof -
  show "mtlsRate policyRates = Fin 0"
    using assms by (simp add: mtlsRate_def zero_float64_def split: option.split)
  have "the (fmlookup policyRates p) = 0" if "p \<in> fmdom' policyRates - {policyMTLS}" for p
    using that assms by (auto simp: fmlookup_dom'_iff zero_float64_def)
  then have "otherRate policyRates = 0"
    unfolding otherRate_def by (rule sum.neutral [OF ballI])
  then show "otherRate policyRates = Fin 0"
    by (simp add: zero_float64_def)
qed

text \<open>
  C7. When the aggregator holds, for the key of an existing edge, policy rates that are all
  zero, \<^verbatim>\<open>applySecurityPolicy\<close> divides by the zero sum \<^verbatim>\<open>mtls + other\<close> and
  still writes the result, which is NaN, into the metadata of the edge: neither the division
  nor the write is guarded.
\<close>

theorem applySecurityPolicy_zero_rates:
  assumes "fmlookup tm k = Some s"
    and "i < length (Edges s)"
    and "fmlookup spm (Source (Edges s ! i) @ '' '' @ Dest (Edges s ! i)) = Some policyRates"
    and "\<forall>policy rate. fmlookup policyRates policy = Some rate \<longrightarrow> rate = Fin 0"
  shows "mtlsRate policyRates + otherRate policyRates = Fin 0
         \<and> (\<exists>s'. fmlookup (applySecurityPolicy env tm spm) k = Some s'
               \<and> fmlookup (Metadata (Edges s' ! i)) (IsMTLS env) = Some (FloatVal NaN))"
  using assms(1-3) sum_zero_rates [OF assms(4)]
  by (simp add: applySecurityPolicy_lookup applyEdge_found mtlsPercentage_closed_form
      numeral_float64)

theorem applySecurityPolicy_zero_rates_witness:
  "populateSecurityPolicyMap sampleExternals (sampleAppender False) fmempty
     [sampleSeries ''mutual_tls'' (Fin 0), sampleSeries ''none'' (Fin 0)]
     = fmupd ''bookinfo_productpage-v1 bookinfo_reviews-v1''
         (fmupd ''none'' (Fin 0) (fmupd ''mutual_tls'' (Fin 0) fmempty)) fmempty
   \<and> (\<exists>s'. fmlookup
              (applySecurityPolicy sampleExternals sampleTrafficMap
                 (populateSecurityPolicyMap sampleExternals (sampleAppender False) fmempty
                    [sampleSeries ''mutual_tls'' (Fin 0), sampleSeries ''none'' (Fin 0)]))
              ''bookinfo_productpage-v1'' = Some s'
            \<and> fmlookup (Metadata (Edges s' ! 0)) ''isMTLS'' = Some (FloatVal NaN))"
proof -
  let ?rates = "fmupd ''none'' (Fin 0) (fmupd ''mutual_tls'' (Fin 0) fmempty)"
  let ?spm = "populateSecurityPolicyMap sampleExternals (sampleAppender False) fmempty
     [sampleSeries ''mutual_tls'' (Fin 0), sampleSeries ''none'' (Fin 0)]"
  have spm: "?spm = fmupd ''bookinfo_productpage-v1 bookinfo_reviews-v1'' ?rates fmempty"
    by (simp add: populateSample_sampleSeries observe_def)
  have h1: "fmlookup sampleTrafficMap ''bookinfo_productpage-v1''
              = Some \<lparr>ID = ''bookinfo_productpage-v1'', Edges = [sampleEdge]\<rparr>"
    by (simp add: sampleTrafficMap_def)
  have h2: "0 < length (Edges \<lparr>ID = ''bookinfo_productpage-v1'', Edges = [sampleEdge]\<rparr>)"
    by simp
  have h3: "fmlookup ?spm
              (Source (Edges \<lparr>ID = ''bookinfo_productpage-v1'', Edges = [sampleEdge]\<rparr> ! 0)
                 @ '' '' @
               Dest (Edges \<lparr>ID = ''bookinfo_productpage-v1'', Edges = [sampleEdge]\<rparr> ! 0))
              = Some ?rates"
    by (subst spm) (simp add: sampleEdge_def)
  have h4: "\<forall>policy rate. fmlookup ?rates policy = Some rate \<longrightarrow> rate = Fin 0"
    by simp
  show ?thesis
    using applySecurityPolicy_zero_rates [OF h1 h2 h3 h4, of sampleExternals] spm
    by (simp add: sampleExternals_def populateSample_sampleSeries observe_def)
qed

subsection \<open>AppendGraph and the two queries\<close>

lemma len_zero_iff_empty: "fcard (fmdom tm) = 0 \<longleftrightarrow> tm = fmempty"
proof
  assume "fcard (fmdom tm) = 0"
  then have "fmdom tm = {||}"
    by (simp add: fcard_0_eq)
  then have "fmlookup tm k = None" for k
    by (metis fmdom_notD fempty_iff)
  then show "tm = fmempty"
    by (intro fmap_ext) simp
next
  assume "tm = fmempty"
  then show "fcard (fmdom tm) = 0"
    by simp
qed

text \<open>
  C6. On an empty traffic map \<^verbatim>\<open>AppendGraph\<close> returns at once: no query is issued, the
  client handle is not initialised, and the traffic map and the rest of the state are as
  they were.
\<close>

theorem AppendGraph_empty_noop:
  "trafficMap st = fmempty \<Longrightarrow> AppendGraph env a st namespace = Inr st"
  by (simp add: AppendGraph_def)

theorem AppendGraph_empty_noop_witness:
  "trafficMap \<lparr>trafficMap = fmempty, PromClient = None, queryLog = []\<rparr> = fmempty
   \<and> AppendGraph sampleExternals (sampleAppender False)
       \<lparr>trafficMap = fmempty, PromClient = None, queryLog = []\<rparr> ''bookinfo''
     = Inr \<lparr>trafficMap = fmempty, PromClient = None :: unit option, queryLog = []\<rparr>"
  using AppendGraph_empty_noop [of "\<lparr>trafficMap = fmempty, PromClient = None, queryLog = []\<rparr>"
      sampleExternals "sampleAppender False" "''bookinfo''"]
  by simp

lemma AppendGraph_nonempty:
  assumes "trafficMap st \<noteq> fmempty"
  shows "AppendGraph env a st namespace =
     (case PromClient st of
        None \<Rightarrow>
          (case NewClient env of
             Inl err \<Rightarrow> Inl err
           | Inr client \<Rightarrow>
               Inr (appendGraph env a (st\<lparr>PromClient := Some client\<rparr>) namespace client))
      | Some client \<Rightarrow> Inr (appendGraph env a st namespace client))"
proof -
  have "fcard (fmdom (trafficMap st)) \<noteq> 0"
    using assms len_zero_iff_empty [of "trafficMap st"] by blast
  then show ?thesis
    by (simp add: AppendGraph_def del: fcard_0_eq)
qed

text \<open>
  C9 reads "every invocation issues exactly two queries". The guard on the empty traffic
  map makes that false as it stands: here \<^verbatim>\<open>AppendGraph\<close> returns with the query log
  still empty.
\<close>

theorem AppendGraph_empty_issues_no_query:
  "AppendGraph overlappingExternals (sampleAppender True)
     \<lparr>trafficMap = fmempty, PromClient = Some (), queryLog = []\<rparr> ''bookinfo''
   = Inr \<lparr>trafficMap = fmempty, PromClient = Some (), queryLog = []\<rparr>"
  by (simp add: AppendGraph_def)

text \<open>
  C9, amended. An invocation of \<^verbatim>\<open>AppendGraph\<close> on a non-empty traffic map, with a
  metrics client at hand or successfully constructed, issues exactly two metrics queries,
  the outbound one and then the inbound one, both at the instant \<^verbatim>\<open>QueryTime\<close>. On an
  empty traffic map it issues none, and when the client cannot be constructed the run is
  aborted before any query.
\<close>

theorem AppendGraph_issues_two_queries:
  "(trafficMap st \<noteq> fmempty
      \<and> (PromClient st = Some client \<or> PromClient st = None \<and> NewClient env = Inr client)
    \<longrightarrow> (\<exists>st'. AppendGraph env a st namespace = Inr st'
           \<and> queryLog st' =
               queryLog st
                 @ [(outboundQuery namespace (namespaceSeconds env a namespace), QueryTime a),
                    (inboundQuery namespace (getIstioNamespaces env (Namespaces a))
                       (namespaceSeconds env a namespace),
                     QueryTime a)]))
   \<and> (trafficMap st = fmempty \<longrightarrow> AppendGraph env a st namespace = Inr st)
   \<and> (trafficMap st \<noteq> fmempty \<and> PromClient st = None \<and> NewClient env = Inl err
        \<longrightarrow> AppendGraph env a st namespace = Inl err)"
proof (intro conjI impI)
  assume "trafficMap st = fmempty"
  then show "AppendGraph env a st namespace = Inr st"
    by (simp add: AppendGraph_def)
next
  assume "trafficMap st \<noteq> fmempty \<and> PromClient st = None \<and> NewClient env = Inl err"
  then show "AppendGraph env a st namespace = Inl err"
    by (simp add: AppendGraph_nonempty)
next
  assume h: "trafficMap st \<noteq> fmempty
      \<and> (PromClient st = Some client \<or> PromClient st = None \<and> NewClient env = Inr client)"
  then have "AppendGraph env a st namespace = Inr (appendGraph env a st namespace client)
      \<or> AppendGraph env a st namespace
          = Inr (appendGraph env a (st\<lparr>PromClient := Some client\<rparr>) namespace client)"
    by (auto simp: AppendGraph_nonempty)
  then show "\<exists>st'. AppendGraph env a st namespace = Inr st'
           \<and> queryLog st' =
               queryLog st
                 @ [(outboundQuery namespace (namespaceSeconds env a namespace), QueryTime a),
                    (inboundQuery namespace (getIstioNamespaces env (Namespaces a))
                       (namespaceSeconds env a namespace),
                     QueryTime a)]"
    by (auto simp: appendGraph_result)
qed

theorem AppendGraph_issues_two_queries_witness:
  \<open>\<exists>st'. AppendGraph sampleExternals (sampleAppender False)
            \<lparr>trafficMap = sampleTrafficMap, PromClient = None, queryLog = []\<rparr> ''bookinfo''
          = Inr st'
        \<and> queryLog st' =
            [(''sum(rate(istio_requests_total{reporter="destination",source_workload_namespace!="bookinfo",destination_service_namespace="bookinfo"}[60s]) > 0) by (''
                @ groupBy @ '')'',
              1500000000),
             (''sum(rate(istio_requests_total{reporter="destination",source_workload_namespace="bookinfo",destination_service_namespace!~"istio-system"}[60s]) > 0) by (''
                @ groupBy @ '')'',
              1500000000)]\<close>
proof -
  have ne: "trafficMap \<lparr>trafficMap = sampleTrafficMap, PromClient = None :: unit option,
                        queryLog = []\<rparr> \<noteq> fmempty"
    by (simp add: sampleTrafficMap_def)
  have cl: "PromClient \<lparr>trafficMap = sampleTrafficMap, PromClient = None :: unit option,
                        queryLog = []\<rparr> = None
            \<and> NewClient sampleExternals = Inr ()"
    by (simp add: sampleExternals_def)
  have secs: "namespaceSeconds sampleExternals (sampleAppender False) ''bookinfo'' = 60"
    by (simp add: namespaceSeconds_def sampleExternals_def sampleAppender_def)
  have sixty: "showInt 60 = ''60''"
    by (simp add: showInt_def showNat.simps)
  have excl: "getIstioNamespaces sampleExternals (Namespaces (sampleAppender False))
                = [''istio-system'']"
    by (simp add: sampleExternals_def)
  have qt: "QueryTime (sampleAppender False) = 1500000000"
    by (simp add: sampleAppender_def)
  show ?thesis
    using AppendGraph_issues_two_queries [THEN conjunct1, rule_format, of
        "\<lparr>trafficMap = sampleTrafficMap, PromClient = None, queryLog = []\<rparr>" "()"
        sampleExternals "sampleAppender False" "''bookinfo''"] ne cl
    by (simp add: secs sixty excl qt outboundQuery_def inboundQuery_def
        destinationWorkloadNamespaceQuery_def)
qed

lemma showNat_digits: "set (showNat n) \<subseteq> set ''0123456789''"
proof (induction n rule: showNat.induct)
  case (1 n)
  have digit: "''0123456789'' ! d \<in> set ''0123456789''" if "d < 10" for d
    using that by (intro nth_mem) simp
  show ?case
  proof (cases "n < 10")
    case True
    then show ?thesis
      using digit [of n] by (subst showNat.simps) simp
  next
    case False
    have "n mod 10 < 10" by simp
    then have "''0123456789'' ! (n mod 10) \<in> set ''0123456789''"
      by (rule digit)
    with False "1.IH" show ?thesis
      by (subst showNat.simps) simp
  qed
qed

lemma tilde_not_in_showInt: "CHR ''~'' \<notin> set (showInt i)"
  using showNat_digits [of "nat i"] showNat_digits [of "nat (- i)"]
  by (auto simp: showInt_def)

text \<open>
  C8. When there is no excluded infrastructure namespace, the inbound query has no
  exclusion clause on the destination service namespace at all (and no regex-match operator,
  unless the namespace name brings one). When there are excluded namespaces, the query has
  the negative regex-match clause whose pattern is their names joined by
  \<^verbatim>\<open>|\<close>. The second query \<^verbatim>\<open>appendGraph\<close> issues is this query, for the
  namespaces that \<^verbatim>\<open>getIstioNamespaces\<close> returns.
\<close>

theorem inboundQuery_exclusion_clause:
  \<open>(excluded = [] \<longrightarrow>
      inboundQuery namespace excluded seconds =
        ''sum(rate(istio_requests_total{reporter="destination",source_workload_namespace="''
          @ namespace @ ''"}['' @ showInt seconds @ ''s]) > 0) by ('' @ groupBy @ '')''
      \<and> (CHR ''~'' \<notin> set namespace \<longrightarrow>
           CHR ''~'' \<notin> set (inboundQuery namespace excluded seconds)))
   \<and> (excluded \<noteq> [] \<longrightarrow>
        inboundQuery namespace excluded seconds =
          ''sum(rate(istio_requests_total{reporter="destination",source_workload_namespace="''
            @ namespace @ ''",destination_service_namespace!~"'' @ join excluded ''|''
            @ ''"}['' @ showInt seconds @ ''s]) > 0) by ('' @ groupBy @ '')'')
   \<and> join (x # y # rest) ''|'' = x @ ''|'' @ join (y # rest) ''|''
   \<and> queryLog (appendGraph env a st namespace client) ! Suc (length (queryLog st)) =
       (inboundQuery namespace (getIstioNamespaces env (Namespaces a))
          (namespaceSeconds env a namespace),
        QueryTime a)\<close>
proof (intro conjI impI)
  assume "excluded = []"
  then show \<open>inboundQuery namespace excluded seconds =
        ''sum(rate(istio_requests_total{reporter="destination",source_workload_namespace="''
          @ namespace @ ''"}['' @ showInt seconds @ ''s]) > 0) by ('' @ groupBy @ '')''\<close>
    by (simp add: inboundQuery_def destinationWorkloadNamespaceQuery_def)
next
  assume "excluded = []" and "CHR ''~'' \<notin> set namespace"
  then show "CHR ''~'' \<notin> set (inboundQuery namespace excluded seconds)"
    using tilde_not_in_showInt [of seconds]
    by (simp add: inboundQuery_def destinationWorkloadNamespaceQuery_def groupBy_def)
next
  assume "excluded \<noteq> []"
  then show \<open>inboundQuery namespace excluded seconds =
          ''sum(rate(istio_requests_total{reporter="destination",source_workload_namespace="''
            @ namespace @ ''",destination_service_namespace!~"'' @ join excluded ''|''
            @ ''"}['' @ showInt seconds @ ''s]) > 0) by ('' @ groupBy @ '')''\<close>
    by (simp add: inboundQuery_def destinationWorkloadNamespaceQuery_def)
next
  show "join (x # y # rest) ''|'' = x @ ''|'' @ join (y # rest) ''|''"
    by simp
next
  show "queryLog (appendGraph env a st namespace client) ! Suc (length (queryLog st)) =
       (inboundQuery namespace (getIstioNamespaces env (Namespaces a))
          (namespaceSeconds env a namespace),
        QueryTime a)"
    by (simp add: appendGraph_result nth_append)
qed

theorem inboundQuery_exclusion_clause_witness:
  \<open>inboundQuery ''bookinfo'' [] 60 =
     ''sum(rate(istio_requests_total{reporter="destination",source_workload_namespace="bookinfo"}[60s]) > 0) by (''
       @ groupBy @ '')''
   \<and> CHR ''~'' \<notin> set (inboundQuery ''bookinfo'' [] 60)
   \<and> inboundQuery ''bookinfo'' [''istio-system'', ''kube-system''] 60 =
     ''sum(rate(istio_requests_total{reporter="destination",source_workload_namespace="bookinfo",destination_service_namespace!~"istio-system|kube-system"}[60s]) > 0) by (''
       @ groupBy @ '')''\<close>
proof -
  have sixty: "showInt 60 = ''60''"
    by (simp add: showInt_def showNat.simps)
  note empty = inboundQuery_exclusion_clause [THEN conjunct1, rule_format,
      of "[]" "''bookinfo''" 60]
  note nonempty = inboundQuery_exclusion_clause [THEN conjunct2, THEN conjunct1, rule_format,
      of "[''istio-system'', ''kube-system'']" "''bookinfo''" 60]
  have "CHR ''~'' \<notin> set ''bookinfo''"
    by simp
  with empty have "CHR ''~'' \<notin> set (inboundQuery ''bookinfo'' [] 60)"
    by blast
  then show ?thesis
    using empty nonempty by (simp add: sixty)
qed

end
